theory Spec2Isabelle
  imports Main "HOL-Library.Word"
begin

section \<open>Environment validation of the Nigerian tax calculator (src/lib/env.ts)\<close>

subsection \<open>JavaScript strings and values\<close>

text \<open>
  A JavaScript string is a sequence of UTF-16 code units. The names and literals of the
  module are ASCII, apart from three symbols of the error messages (U+274C, U+26A0,
  U+FE0F), which are written as code units.
\<close>

type_synonym jsstring = "16 word list"

definition ascii :: "string \<Rightarrow> jsstring" where
  "ascii s = map (\<lambda>c. word_of_nat (of_char c)) s"

text \<open>
  \<^verbatim>\<open>process.env[name]\<close> is a string or \<^verbatim>\<open>undefined\<close>; the same holds for a property
  read from the validated object.
\<close>

datatype jsvalue = Undefined | Str jsstring

type_synonym process_env = "jsstring \<Rightarrow> jsvalue"

text \<open>An object literal: its own properties, each bound to a value.\<close>

type_synonym object = "jsstring \<rightharpoonup> jsvalue"

definition get :: "object \<Rightarrow> jsstring \<Rightarrow> jsvalue" where
  "get obj key = (case obj key of None \<Rightarrow> Undefined | Some v \<Rightarrow> v)"

text \<open>
  \<^verbatim>\<open>String.prototype.trim\<close> removes the white space and line terminators of ECMAScript
  (TAB, LF, VT, FF, CR, SP, NBSP, U+1680, U+2000..U+200A, U+2028, U+2029, U+202F, U+205F,
  U+3000, U+FEFF) from both ends.
\<close>

definition isWhiteSpace :: "16 word \<Rightarrow> bool" where
  "isWhiteSpace c \<longleftrightarrow>
     c \<in> {0x9, 0xA, 0xB, 0xC, 0xD, 0x20, 0xA0, 0x1680, 0x2028, 0x2029, 0x202F, 0x205F,
          0x3000, 0xFEFF}
     \<or> (0x2000 \<le> c \<and> c \<le> 0x200A)"

definition trim :: "jsstring \<Rightarrow> jsstring" where
  "trim s = rev (dropWhile isWhiteSpace (rev (dropWhile isWhiteSpace s)))"

text \<open>\<^verbatim>\<open>parts.join(sep)\<close>\<close>

fun join :: "jsstring \<Rightarrow> jsstring list \<Rightarrow> jsstring" where
  "join sep [] = []"
| "join sep [p] = p"
| "join sep (p # q # ps) = p @ sep @ join sep (q # ps)"

text \<open>\<^verbatim>\<open>s.includes(t)\<close>: \<open>t\<close> occurs in \<open>s\<close> as a contiguous run of code units.\<close>

fun includes_js :: "jsstring \<Rightarrow> jsstring \<Rightarrow> bool" where
  "includes_js [] t = (t = [])"
| "includes_js (c # s) t = (take (length t) (c # s) = t \<or> includes_js s t)"

subsection \<open>Errors\<close>

text \<open>\<^verbatim>\<open>new Error(message)\<close>\<close>

datatype error = Error (message: jsstring)

subsection \<open>The two loops shared by both validators\<close>

text \<open>
  \<^verbatim>\<open>
  for (const varName of requiredVars) {
    const value = process.env[varName];
    if (value === undefined) { missing.push(varName); }
    else if (value.trim() === '') { empty.push(varName); }
  }
  \<close>
  The state of the loop is the pair of the two arrays.
\<close>

fun scanVars ::
  "process_env \<Rightarrow> jsstring list \<Rightarrow> jsstring list \<times> jsstring list
     \<Rightarrow> jsstring list \<times> jsstring list" where
  "scanVars penv [] (missing, empty') = (missing, empty')"
| "scanVars penv (varName # rest) (missing, empty') =
     (case penv varName of
        Undefined \<Rightarrow> scanVars penv rest (missing @ [varName], empty')
      | Str val \<Rightarrow>
          if trim val = [] then scanVars penv rest (missing, empty' @ [varName])
          else scanVars penv rest (missing, empty'))"

text \<open>
  \<^verbatim>\<open>
  requiredVars.reduce((acc, key) => { acc[key] = process.env[key]; return acc; }, {})
  \<close>
\<close>

fun reduceVars :: "process_env \<Rightarrow> jsstring list \<Rightarrow> object \<Rightarrow> object" where
  "reduceVars penv [] acc = acc"
| "reduceVars penv (key # rest) acc = reduceVars penv rest (acc(key \<mapsto> penv key))"

text \<open>
  \<^verbatim>\<open>names.forEach(varName => { errorParts.push(`  - ${varName}`); })\<close>
\<close>

definition bullets :: "jsstring list \<Rightarrow> jsstring list" where
  "bullets names = map (\<lambda>varName. ascii ''  - '' @ varName) names"

subsection \<open>validateClientEnv\<close>

definition requiredClientVars :: "jsstring list" where
  "requiredClientVars =
     [ascii ''NEXT_PUBLIC_SUPABASE_URL'',
      ascii ''NEXT_PUBLIC_SUPABASE_ANON_KEY'',
      ascii ''NEXT_PUBLIC_PLASMIC_PROJECT_ID'',
      ascii ''NEXT_PUBLIC_PLASMIC_TOKEN'',
      ascii ''NEXT_PUBLIC_RECAPTCHA_SITE_KEY'',
      ascii ''NEXT_PUBLIC_PAYSTACK_PUBLIC_KEY'',
      ascii ''NEXT_PUBLIC_REMITA_MERCHANT_ID'',
      ascii ''NEXT_PUBLIC_REMITA_SERVICE_TYPE_ID'',
      ascii ''NEXT_PUBLIC_OPAY_MERCHANT_ID'',
      ascii ''NEXT_PUBLIC_OPAY_PUBLIC_KEY'',
      ascii ''NEXT_PUBLIC_APP_ENV'',
      ascii ''NEXT_PUBLIC_APP_URL'']"

definition clientErrorParts :: "jsstring list \<Rightarrow> jsstring list \<Rightarrow> jsstring list" where
  "clientErrorParts missing empty' =
     [0x274C # ascii '' Environment Variable Validation Failed!'',
      [],
      ascii ''Required client-side environment variables are not properly configured.'',
      []]
     @ (if length missing > 0
        then [ascii ''Missing variables (not defined in .env.local):''] @ bullets missing @ [[]]
        else [])
     @ (if length empty' > 0
        then [ascii ''Empty variables (defined but have no value):''] @ bullets empty' @ [[]]
        else [])
     @ [ascii ''How to fix:'',
        ascii ''1. Copy .env.example to .env.local:'',
        ascii ''   cp .env.example .env.local'',
        [],
        ascii ''2. Fill in the missing/empty values in .env.local'',
        [],
        ascii ''3. Restart your development server'',
        [],
        ascii ''See .env.example for guidance on where to get these values.'']"

definition validateClientEnv :: "process_env \<Rightarrow> error + object" where
  "validateClientEnv penv =
     (case scanVars penv requiredClientVars ([], []) of
        (missing, empty') \<Rightarrow>
          if length missing > 0 \<or> length empty' > 0
          then Inl (Error (join (ascii [CHR 0x0A]) (clientErrorParts missing empty')))
          else Inr (reduceVars penv requiredClientVars Map.empty))"

subsection \<open>validateServerEnv\<close>

definition requiredServerVars :: "jsstring list" where
  "requiredServerVars =
     [ascii ''SUPABASE_SERVICE_ROLE_KEY'',
      ascii ''RECAPTCHA_SECRET_KEY'',
      ascii ''PAYSTACK_SECRET_KEY'',
      ascii ''REMITA_API_KEY'',
      ascii ''OPAY_SECRET_KEY'']"

definition serverErrorParts :: "jsstring list \<Rightarrow> jsstring list \<Rightarrow> jsstring list" where
  "serverErrorParts missing empty' =
     [0x274C # ascii '' Server Environment Variable Validation Failed!'',
      [],
      ascii ''Required server-side (secret) environment variables are not properly configured.'',
      [],
      0x26A0 # 0xFE0F #
        ascii ''  WARNING: These variables should NEVER be prefixed with NEXT_PUBLIC_'',
      ascii ''   They contain sensitive data and must remain server-side only!'',
      []]
     @ (if length missing > 0
        then [ascii ''Missing variables (not defined in .env.local):''] @ bullets missing @ [[]]
        else [])
     @ (if length empty' > 0
        then [ascii ''Empty variables (defined but have no value):''] @ bullets empty' @ [[]]
        else [])
     @ [ascii ''How to fix:'',
        ascii ''1. Check your .env.local file'',
        [],
        ascii ''2. Fill in the missing/empty SECRET variables'',
        ascii ''   (Do NOT add NEXT_PUBLIC_ prefix to these!)'',
        [],
        ascii ''3. Restart your development server'',
        [],
        ascii ''See .env.example for guidance on where to get these values.'']"

text \<open>
  The parameter \<open>window_defined\<close> is the test \<^verbatim>\<open>typeof window !== 'undefined'\<close>: true in a
  browser, false on the server.
\<close>

definition validateServerEnv :: "bool \<Rightarrow> process_env \<Rightarrow> error + object" where
  "validateServerEnv window_defined penv =
     (if window_defined then Inr Map.empty
      else
        (case scanVars penv requiredServerVars ([], []) of
           (missing, empty') \<Rightarrow>
             if length missing > 0 \<or> length empty' > 0
             then Inl (Error (join (ascii [CHR 0x0A]) (serverErrorParts missing empty')))
             else Inr (reduceVars penv requiredServerVars Map.empty)))"

subsection \<open>validateEnv and the exported values\<close>

text \<open>
  An error thrown by the first call leaves the function at once; the spread
  \<^verbatim>\<open>{...clientEnv, ...serverEnv}\<close> lets the second object override the first.
\<close>

definition validateEnv :: "bool \<Rightarrow> process_env \<Rightarrow> error + object" where
  "validateEnv window_defined penv =
     (case validateClientEnv penv of
        Inl e \<Rightarrow> Inl e
      | Inr clientEnv \<Rightarrow>
          (case validateServerEnv window_defined penv of
             Inl e \<Rightarrow> Inl e
           | Inr serverEnv \<Rightarrow> Inr (clientEnv ++ serverEnv)))"

definition isProduction :: "object \<Rightarrow> bool" where
  "isProduction env \<longleftrightarrow> get env (ascii ''NEXT_PUBLIC_APP_ENV'') = Str (ascii ''production'')"

definition isDevelopment :: "object \<Rightarrow> bool" where
  "isDevelopment env \<longleftrightarrow> get env (ascii ''NEXT_PUBLIC_APP_ENV'') = Str (ascii ''development'')"

definition isStaging :: "object \<Rightarrow> bool" where
  "isStaging env \<longleftrightarrow> get env (ascii ''NEXT_PUBLIC_APP_ENV'') = Str (ascii ''staging'')"

definition isServer :: "bool \<Rightarrow> bool" where
  "isServer window_defined \<longleftrightarrow> \<not> window_defined"

subsection \<open>The display components (EnvErrorDisplay.tsx, EnvErrorBoundary.tsx)\<close>

text \<open>
  \<^verbatim>\<open>const isEnvError = errorMessage.includes('Environment Variable Validation Failed');\<close>
\<close>

definition isEnvError :: "error \<Rightarrow> bool" where
  "isEnvError err \<longleftrightarrow>
     includes_js (message err) (ascii ''Environment Variable Validation Failed'')"

subsection \<open>Classification of a name in a configuration source\<close>

text \<open>
  A required name is \<^emph>\<open>missing\<close> when the source does not define it, and \<^emph>\<open>empty\<close>
  when it is defined and its value trims to the empty string.
\<close>

definition missingIn :: "process_env \<Rightarrow> jsstring \<Rightarrow> bool" where
  "missingIn penv varName \<longleftrightarrow> penv varName = Undefined"

definition emptyIn :: "process_env \<Rightarrow> jsstring \<Rightarrow> bool" where
  "emptyIn penv varName \<longleftrightarrow>
     (case penv varName of Undefined \<Rightarrow> False | Str val \<Rightarrow> trim val = [])"

text \<open>
  A configuration source that binds each of the 17 names to \<^verbatim>\<open>"x"\<close> and nothing else; the
  examples below are variations of it.
\<close>

definition fullEnv :: process_env where
  "fullEnv key =
     (if key \<in> set requiredClientVars \<union> set requiredServerVars then Str (ascii ''x'')
      else Undefined)"

text \<open>The same, without the five secret names: what a browser bundle can see.\<close>

definition publicOnlyEnv :: process_env where
  "publicOnlyEnv key =
     (if key \<in> set requiredClientVars then Str (ascii ''x'') else Undefined)"

section \<open>Auxiliary lemmas\<close>

subsection \<open>Strings\<close>

lemma unat_code_unit: "unat (word_of_nat (of_char c) :: 16 word) = of_char c"
proof -
  have "(of_char c :: nat) < 256"
    by (rule nat_of_char_less_256)
  moreover have "(256 :: nat) < 2 ^ 16"
    by simp
  ultimately have "(of_char c :: nat) < 2 ^ 16"
    by (rule less_trans)
  then show ?thesis by (simp add: unat_of_nat)
qed

lemma ascii_eq_iff: "ascii s = ascii t \<longleftrightarrow> s = t"
proof -
  have "inj (\<lambda>c::char. (word_of_nat (of_char c) :: 16 word))"
  proof (rule injI)
    fix a b :: char
    assume "(word_of_nat (of_char a) :: 16 word) = word_of_nat (of_char b)"
    then have "unat (word_of_nat (of_char a) :: 16 word)
                 = unat (word_of_nat (of_char b) :: 16 word)"
      by simp
    then have "(of_char a :: nat) = of_char b"
      by (simp only: unat_code_unit)
    then show "a = b" by simp
  qed
  then show ?thesis by (simp add: ascii_def inj_map_eq_map)
qed

lemma includes_js_Nil: "includes_js s []"
  by (cases s) auto

lemma includes_js_prefix: "includes_js (t @ post) t"
  by (cases t) (auto simp: includes_js_Nil)

lemma includes_js_append: "includes_js (pre @ t @ post) t"
proof (induction pre)
  case Nil
  show ?case using includes_js_prefix by simp
next
  case (Cons c pre)
  then show ?case by simp
qed

subsection \<open>The loops\<close>

lemma scanVars_filter:
  "scanVars penv names (missing, empty') =
     (missing @ filter (missingIn penv) names, empty' @ filter (emptyIn penv) names)"
  by (induction names arbitrary: missing empty')
     (auto simp: missingIn_def emptyIn_def split: jsvalue.splits)

lemma reduceVars_apply:
  "reduceVars penv names acc key = (if key \<in> set names then Some (penv key) else acc key)"
  by (induction names arbitrary: acc) auto

subsection \<open>The validators in closed form\<close>

lemma validateClientEnv_eq:
  "validateClientEnv penv =
     (if \<exists>n \<in> set requiredClientVars. missingIn penv n \<or> emptyIn penv n
      then Inl (Error (join (ascii [CHR 0x0A])
             (clientErrorParts (filter (missingIn penv) requiredClientVars)
                               (filter (emptyIn penv) requiredClientVars))))
      else Inr (\<lambda>key. if key \<in> set requiredClientVars then Some (penv key) else None))"
  by (auto simp: validateClientEnv_def scanVars_filter filter_empty_conv reduceVars_apply
        fun_eq_iff)

lemma validateServerEnv_eq:
  "validateServerEnv window_defined penv =
     (if window_defined then Inr Map.empty
      else if \<exists>n \<in> set requiredServerVars. missingIn penv n \<or> emptyIn penv n
      then Inl (Error (join (ascii [CHR 0x0A])
             (serverErrorParts (filter (missingIn penv) requiredServerVars)
                               (filter (emptyIn penv) requiredServerVars))))
      else Inr (\<lambda>key. if key \<in> set requiredServerVars then Some (penv key) else None))"
  by (auto simp: validateServerEnv_def scanVars_filter filter_empty_conv reduceVars_apply
        fun_eq_iff)

subsection \<open>The orchestrator in closed form\<close>

lemma validateEnv_eq:
  "validateEnv window_defined penv =
     (if \<exists>n \<in> set requiredClientVars. missingIn penv n \<or> emptyIn penv n
      then validateClientEnv penv
      else if \<not> window_defined
              \<and> (\<exists>n \<in> set requiredServerVars. missingIn penv n \<or> emptyIn penv n)
      then validateServerEnv window_defined penv
      else Inr (\<lambda>key. if key \<in> set requiredClientVars
                               \<union> (if window_defined then {} else set requiredServerVars)
                      then Some (penv key) else None))"
  by (auto simp: validateEnv_def validateClientEnv_eq validateServerEnv_eq map_add_def fun_eq_iff)

lemma validateEnv_ok:
  assumes "\<forall>n \<in> set requiredClientVars
                  \<union> (if window_defined then {} else set requiredServerVars).
             \<not> missingIn penv n \<and> \<not> emptyIn penv n"
  shows "validateEnv window_defined penv =
           Inr (\<lambda>key. if key \<in> set requiredClientVars
                               \<union> (if window_defined then {} else set requiredServerVars)
                      then Some (penv key) else None)"
  using assms by (auto simp: validateEnv_eq)

lemma required_disjoint: "set requiredClientVars \<inter> set requiredServerVars = {}"
  by (simp add: requiredClientVars_def requiredServerVars_def ascii_eq_iff)

lemma required_distinct: "distinct (requiredClientVars @ requiredServerVars)"
  by (simp add: requiredClientVars_def requiredServerVars_def ascii_eq_iff)

lemma card_required: "card (set requiredClientVars \<union> set requiredServerVars) = 17"
proof -
  have "card (set (requiredClientVars @ requiredServerVars))
          = length (requiredClientVars @ requiredServerVars)"
    using required_distinct by (rule distinct_card)
  moreover have "length (requiredClientVars @ requiredServerVars) = 17"
    by (simp add: requiredClientVars_def requiredServerVars_def)
  ultimately show ?thesis
    by (simp only: set_append)
qed

lemma card_public: "card (set requiredClientVars) = 12"
proof -
  have "distinct requiredClientVars"
    using required_distinct by simp
  then have "card (set requiredClientVars) = length requiredClientVars"
    by (rule distinct_card)
  moreover have "length requiredClientVars = 12"
    by (simp add: requiredClientVars_def)
  ultimately show ?thesis
    by (simp only:)
qed

lemma tier_required: "ascii ''NEXT_PUBLIC_APP_ENV'' \<in> set requiredClientVars"
  by (simp add: requiredClientVars_def)

lemma validateEnv_tier:
  assumes "validateEnv window_defined penv = Inr env"
  shows "get env (ascii ''NEXT_PUBLIC_APP_ENV'') = penv (ascii ''NEXT_PUBLIC_APP_ENV'')"
  using assms tier_required
  by (auto simp: validateEnv_eq validateClientEnv_eq validateServerEnv_eq get_def
           split: if_splits)

subsection \<open>The error messages\<close>

lemma clientErrorParts_message:
  "join sep (clientErrorParts missing empty')
     = [0x274C, 0x20] @ ascii ''Environment Variable Validation Failed''
       @ ascii ''!'' @ sep @ join sep (tl (clientErrorParts missing empty'))"
  by (simp add: clientErrorParts_def ascii_def)

lemma serverErrorParts_message:
  "join sep (serverErrorParts missing empty')
     = (0x274C # ascii '' Server '') @ ascii ''Environment Variable Validation Failed''
       @ ascii ''!'' @ sep @ join sep (tl (serverErrorParts missing empty'))"
  by (simp add: serverErrorParts_def ascii_def)

lemma client_message_marker:
  "isEnvError (Error (join sep (clientErrorParts missing empty')))"
  unfolding isEnvError_def error.sel
  by (subst clientErrorParts_message) (rule includes_js_append)

lemma server_message_marker:
  "isEnvError (Error (join sep (serverErrorParts missing empty')))"
  unfolding isEnvError_def error.sel
  by (subst serverErrorParts_message) (rule includes_js_append)

lemma messages_differ:
  "join sep (clientErrorParts m1 e1) \<noteq> join sep (serverErrorParts m2 e2)"
proof
  assume "join sep (clientErrorParts m1 e1) = join sep (serverErrorParts m2 e2)"
  then have "take 3 (join sep (clientErrorParts m1 e1)) = take 3 (join sep (serverErrorParts m2 e2))"
    by simp
  then show False
    by (simp add: clientErrorParts_message serverErrorParts_message ascii_def)
qed

subsection \<open>The example sources\<close>

lemma trim_x: "trim (ascii ''x'') \<noteq> []"
  by (simp add: trim_def ascii_def isWhiteSpace_def)

lemma trim_Nil: "trim [] = []"
  by (simp add: trim_def)

lemma fullEnv_required:
  "n \<in> set requiredClientVars \<union> set requiredServerVars \<Longrightarrow> fullEnv n = Str (ascii ''x'')"
  by (simp add: fullEnv_def)

lemma fullEnv_present:
  "n \<in> set requiredClientVars \<union> set requiredServerVars \<Longrightarrow>
     \<not> missingIn fullEnv n \<and> \<not> emptyIn fullEnv n"
  by (simp add: missingIn_def emptyIn_def fullEnv_required trim_x del: Un_iff)

lemma publicOnlyEnv_present:
  "n \<in> set requiredClientVars \<Longrightarrow> \<not> missingIn publicOnlyEnv n \<and> \<not> emptyIn publicOnlyEnv n"
  by (simp add: missingIn_def emptyIn_def publicOnlyEnv_def trim_x)

lemma present_upd:
  assumes "\<not> missingIn penv n \<and> \<not> emptyIn penv n" and "trim val \<noteq> []"
  shows "\<not> missingIn (penv(key := Str val)) n \<and> \<not> emptyIn (penv(key := Str val)) n"
  using assms by (simp add: missingIn_def emptyIn_def)

lemma scan_example:
  "scanVars (fullEnv(ascii ''NEXT_PUBLIC_SUPABASE_URL'' := Undefined,
                     ascii ''NEXT_PUBLIC_PLASMIC_TOKEN'' := Str [])) requiredClientVars ([], [])
   = ([ascii ''NEXT_PUBLIC_SUPABASE_URL''], [ascii ''NEXT_PUBLIC_PLASMIC_TOKEN''])"
  by (simp add: scanVars_filter requiredClientVars_def missingIn_def emptyIn_def fullEnv_def
        requiredServerVars_def ascii_eq_iff trim_x trim_Nil)

section \<open>Properties\<close>

text \<open>
  C1. In a browser (\<^verbatim>\<open>window\<close> defined) \<open>validateServerEnv\<close> returns the empty object and
  raises nothing, whatever the configuration source holds for the five secret names: the
  result does not depend on the source at all.
\<close>

theorem validateServerEnv_browser_empty:
  "validateServerEnv True penv = Inr Map.empty"
  by (simp add: validateServerEnv_def)

text \<open>
  The same at a source that defines all five secret names and at one that defines none.
\<close>

theorem validateServerEnv_browser_empty_witness:
  "validateServerEnv True fullEnv = Inr Map.empty
   \<and> validateServerEnv True publicOnlyEnv = Inr Map.empty"
  using validateServerEnv_browser_empty [of fullEnv]
    validateServerEnv_browser_empty [of publicOnlyEnv]
  by simp

text \<open>
  C2 (as amended). When both validators return an object, \<open>validateEnv\<close> returns their
  merge, and its key set is the 12 public names together with, on the server, the 5 secret
  names; in a browser the key set is the 12 public names only.
\<close>

theorem validateEnv_keys:
  assumes "validateClientEnv penv = Inr clientEnv"
    and "validateServerEnv window_defined penv = Inr serverEnv"
  shows "validateEnv window_defined penv = Inr (clientEnv ++ serverEnv)
         \<and> dom (clientEnv ++ serverEnv)
             = set requiredClientVars
                 \<union> (if window_defined then {} else set requiredServerVars)"
proof -
  have "dom clientEnv = set requiredClientVars"
    using assms(1) by (auto simp: validateClientEnv_eq split: if_splits)
  moreover have "dom serverEnv = (if window_defined then {} else set requiredServerVars)"
    using assms(2) by (auto simp: validateServerEnv_eq split: if_splits)
  ultimately show ?thesis
    using assms by (auto simp: validateEnv_def)
qed

text \<open>
  On the server, at the source that defines all 17 names, the key set is all 17 names
  (the two lists have no name twice and none in common).
\<close>

theorem validateEnv_keys_witness:
  "\<not> isl (validateClientEnv fullEnv) \<and> \<not> isl (validateServerEnv False fullEnv)
   \<and> \<not> isl (validateEnv False fullEnv)
   \<and> dom (projr (validateEnv False fullEnv)) = set requiredClientVars \<union> set requiredServerVars
   \<and> card (dom (projr (validateEnv False fullEnv))) = 17"
proof -
  have c: "validateClientEnv fullEnv
             = Inr (\<lambda>key. if key \<in> set requiredClientVars then Some (fullEnv key) else None)"
    by (simp add: validateClientEnv_eq fullEnv_present)
  have s: "validateServerEnv False fullEnv
             = Inr (\<lambda>key. if key \<in> set requiredServerVars then Some (fullEnv key) else None)"
    by (simp add: validateServerEnv_eq fullEnv_present)
  from validateEnv_keys [OF c s] show ?thesis
    by (simp add: c s card_required)
qed

text \<open>
  C2 as stated (all 17 names whenever both validators succeed) fails in a browser: at the
  source that defines the 12 public names, both validators and \<open>validateEnv\<close> return an
  object, and the keys of the merged object are the 12 public names, not the 17.
\<close>

theorem validateEnv_keys_counterexample:
  "\<not> isl (validateClientEnv publicOnlyEnv) \<and> \<not> isl (validateServerEnv True publicOnlyEnv)
   \<and> \<not> isl (validateEnv True publicOnlyEnv)
   \<and> dom (projr (validateEnv True publicOnlyEnv)) = set requiredClientVars
   \<and> card (dom (projr (validateEnv True publicOnlyEnv))) = 12
   \<and> dom (projr (validateEnv True publicOnlyEnv))
       \<noteq> set requiredClientVars \<union> set requiredServerVars"
proof -
  have "ascii ''OPAY_SECRET_KEY'' \<in> set requiredServerVars"
    by (simp add: requiredServerVars_def)
  moreover have "ascii ''OPAY_SECRET_KEY'' \<notin> set requiredClientVars"
    by (simp add: requiredClientVars_def ascii_eq_iff)
  ultimately have "set requiredClientVars \<noteq> set requiredClientVars \<union> set requiredServerVars"
    by blast
  moreover have "validateEnv True publicOnlyEnv
      = Inr (\<lambda>key. if key \<in> set requiredClientVars then Some (publicOnlyEnv key) else None)"
    by (simp add: validateEnv_ok publicOnlyEnv_present)
  moreover have "dom (\<lambda>key. if key \<in> set requiredClientVars then Some (publicOnlyEnv key) else None)
                   = set requiredClientVars"
    by (auto simp: dom_def)
  ultimately show ?thesis
    by (simp add: validateClientEnv_eq validateServerEnv_eq publicOnlyEnv_present card_public)
qed

text \<open>
  C3. When some required public name is missing from the source, \<open>validateClientEnv\<close>
  raises an error, and the message of the error lists, under the heading of the missing
  variables, one line for each missing required public name and for no other name, in the
  order of \<open>requiredClientVars\<close>; these names are the array \<^verbatim>\<open>missing\<close> of the loop. The names
  whose value is blank follow under their own heading, when there are any.
\<close>

theorem validateClientEnv_missing:
  assumes "\<exists>n \<in> set requiredClientVars. missingIn penv n"
  shows "let missing = filter (missingIn penv) requiredClientVars;
             empty' = filter (emptyIn penv) requiredClientVars
         in validateClientEnv penv =
              Inl (Error (join (ascii [CHR 0x0A])
                ([0x274C # ascii '' Environment Variable Validation Failed!'',
                  [],
                  ascii ''Required client-side environment variables are not properly configured.'',
                  [],
                  ascii ''Missing variables (not defined in .env.local):'']
                 @ map (\<lambda>varName. ascii ''  - '' @ varName) missing
                 @ [[]]
                 @ (if empty' = [] then []
                    else [ascii ''Empty variables (defined but have no value):'']
                         @ map (\<lambda>varName. ascii ''  - '' @ varName) empty'
                         @ [[]])
                 @ [ascii ''How to fix:'',
                    ascii ''1. Copy .env.example to .env.local:'',
                    ascii ''   cp .env.example .env.local'',
                    [],
                    ascii ''2. Fill in the missing/empty values in .env.local'',
                    [],
                    ascii ''3. Restart your development server'',
                    [],
                    ascii ''See .env.example for guidance on where to get these values.''])))
            \<and> scanVars penv requiredClientVars ([], []) = (missing, empty')"
proof -
  have "filter (missingIn penv) requiredClientVars \<noteq> []"
    using assms by (simp add: filter_empty_conv)
  moreover have "\<exists>n \<in> set requiredClientVars. missingIn penv n \<or> emptyIn penv n"
    using assms by blast
  ultimately show ?thesis
    by (simp add: Let_def validateClientEnv_eq clientErrorParts_def bullets_def scanVars_filter)
qed

text \<open>
  The source without \<^verbatim>\<open>NEXT_PUBLIC_SUPABASE_URL\<close> and with \<^verbatim>\<open>NEXT_PUBLIC_PLASMIC_TOKEN=""\<close>:
  the message, line by line, lists the first as missing and the second as empty.
\<close>

theorem validateClientEnv_missing_witness:
  "missingIn (fullEnv(ascii ''NEXT_PUBLIC_SUPABASE_URL'' := Undefined,
                      ascii ''NEXT_PUBLIC_PLASMIC_TOKEN'' := Str []))
     (ascii ''NEXT_PUBLIC_SUPABASE_URL'')
   \<and> validateClientEnv (fullEnv(ascii ''NEXT_PUBLIC_SUPABASE_URL'' := Undefined,
                                ascii ''NEXT_PUBLIC_PLASMIC_TOKEN'' := Str []))
       = Inl (Error (join (ascii [CHR 0x0A])
           [0x274C # ascii '' Environment Variable Validation Failed!'',
            [],
            ascii ''Required client-side environment variables are not properly configured.'',
            [],
            ascii ''Missing variables (not defined in .env.local):'',
            ascii ''  - NEXT_PUBLIC_SUPABASE_URL'',
            [],
            ascii ''Empty variables (defined but have no value):'',
            ascii ''  - NEXT_PUBLIC_PLASMIC_TOKEN'',
            [],
            ascii ''How to fix:'',
            ascii ''1. Copy .env.example to .env.local:'',
            ascii ''   cp .env.example .env.local'',
            [],
            ascii ''2. Fill in the missing/empty values in .env.local'',
            [],
            ascii ''3. Restart your development server'',
            [],
            ascii ''See .env.example for guidance on where to get these values.'']))"
proof -
  let ?env = "fullEnv(ascii ''NEXT_PUBLIC_SUPABASE_URL'' := Undefined,
                      ascii ''NEXT_PUBLIC_PLASMIC_TOKEN'' := Str [])"
  have m: "missingIn ?env (ascii ''NEXT_PUBLIC_SUPABASE_URL'')"
    by (simp add: missingIn_def ascii_eq_iff)
  have "ascii ''NEXT_PUBLIC_SUPABASE_URL'' \<in> set requiredClientVars"
    by (simp add: requiredClientVars_def)
  with m have ex: "\<exists>n \<in> set requiredClientVars. missingIn ?env n"
    by blast
  have f: "filter (missingIn ?env) requiredClientVars = [ascii ''NEXT_PUBLIC_SUPABASE_URL'']"
    "filter (emptyIn ?env) requiredClientVars = [ascii ''NEXT_PUBLIC_PLASMIC_TOKEN'']"
    using scan_example by (simp_all add: scanVars_filter)
  have b: "ascii ''  - '' @ ascii ''NEXT_PUBLIC_SUPABASE_URL'' = ascii ''  - NEXT_PUBLIC_SUPABASE_URL''"
    "ascii ''  - '' @ ascii ''NEXT_PUBLIC_PLASMIC_TOKEN'' = ascii ''  - NEXT_PUBLIC_PLASMIC_TOKEN''"
    by (simp_all add: ascii_def)
  from validateClientEnv_missing [OF ex] m show ?thesis
    by (simp add: Let_def f b del: fun_upd_apply)
qed

text \<open>
  C4. When a required public name is defined and its value trims to the empty string,
  \<open>validateClientEnv\<close> raises an error whose message lists the name under the heading of
  the empty variables and not under the heading of the missing variables: the lines under
  each heading are the names of the arrays \<^verbatim>\<open>empty\<close> and \<^verbatim>\<open>missing\<close> of the loop, the name is in
  the first and not in the second.
\<close>

theorem validateClientEnv_empty:
  assumes "n \<in> set requiredClientVars" and "penv n = Str val" and "trim val = []"
  shows "let missing = filter (missingIn penv) requiredClientVars;
             empty' = filter (emptyIn penv) requiredClientVars
         in validateClientEnv penv =
              Inl (Error (join (ascii [CHR 0x0A])
                ([0x274C # ascii '' Environment Variable Validation Failed!'',
                  [],
                  ascii ''Required client-side environment variables are not properly configured.'',
                  []]
                 @ (if missing = [] then []
                    else [ascii ''Missing variables (not defined in .env.local):'']
                         @ map (\<lambda>varName. ascii ''  - '' @ varName) missing
                         @ [[]])
                 @ [ascii ''Empty variables (defined but have no value):'']
                 @ map (\<lambda>varName. ascii ''  - '' @ varName) empty'
                 @ [[]]
                 @ [ascii ''How to fix:'',
                    ascii ''1. Copy .env.example to .env.local:'',
                    ascii ''   cp .env.example .env.local'',
                    [],
                    ascii ''2. Fill in the missing/empty values in .env.local'',
                    [],
                    ascii ''3. Restart your development server'',
                    [],
                    ascii ''See .env.example for guidance on where to get these values.''])))
            \<and> scanVars penv requiredClientVars ([], []) = (missing, empty')
            \<and> n \<in> set empty' \<and> n \<notin> set missing"
proof -
  have e: "emptyIn penv n" and m: "\<not> missingIn penv n"
    using assms by (simp_all add: emptyIn_def missingIn_def)
  have "filter (emptyIn penv) requiredClientVars \<noteq> []"
    using assms(1) e by (auto simp: filter_empty_conv)
  moreover have "\<exists>n \<in> set requiredClientVars. missingIn penv n \<or> emptyIn penv n"
    using assms(1) e by blast
  ultimately show ?thesis
    using assms(1) e m
    by (simp add: Let_def validateClientEnv_eq clientErrorParts_def bullets_def scanVars_filter)
qed

text \<open>
  A tier made of a space, a tab and a no-break space: the message, line by line, has no
  section of missing variables and lists the tier as empty.
\<close>

theorem validateClientEnv_empty_witness:
  "validateClientEnv (fullEnv(ascii ''NEXT_PUBLIC_APP_ENV'' := Str [0x20, 0x9, 0xA0]))
     = Inl (Error (join (ascii [CHR 0x0A])
           [0x274C # ascii '' Environment Variable Validation Failed!'',
            [],
            ascii ''Required client-side environment variables are not properly configured.'',
            [],
            ascii ''Empty variables (defined but have no value):'',
            ascii ''  - NEXT_PUBLIC_APP_ENV'',
            [],
            ascii ''How to fix:'',
            ascii ''1. Copy .env.example to .env.local:'',
            ascii ''   cp .env.example .env.local'',
            [],
            ascii ''2. Fill in the missing/empty values in .env.local'',
            [],
            ascii ''3. Restart your development server'',
            [],
            ascii ''See .env.example for guidance on where to get these values.'']))"
proof -
  let ?env = "fullEnv(ascii ''NEXT_PUBLIC_APP_ENV'' := Str [0x20, 0x9, 0xA0])"
  have blank: "trim [0x20, 0x9, 0xA0] = []"
    by (simp add: trim_def isWhiteSpace_def)
  have f: "filter (missingIn ?env) requiredClientVars = []"
    "filter (emptyIn ?env) requiredClientVars = [ascii ''NEXT_PUBLIC_APP_ENV'']"
    by (simp_all add: requiredClientVars_def missingIn_def emptyIn_def fullEnv_def
          requiredServerVars_def ascii_eq_iff trim_x blank)
  have b: "ascii ''  - '' @ ascii ''NEXT_PUBLIC_APP_ENV'' = ascii ''  - NEXT_PUBLIC_APP_ENV''"
    by (simp add: ascii_def)
  have val: "?env (ascii ''NEXT_PUBLIC_APP_ENV'') = Str [0x20, 0x9, 0xA0]"
    by simp
  from validateClientEnv_empty
         [of "ascii ''NEXT_PUBLIC_APP_ENV''" ?env "[0x20, 0x9, 0xA0]", OF tier_required val blank]
  show ?thesis
    by (simp add: Let_def f b del: fun_upd_apply)
qed

text \<open>
  C5 (as amended). When the source defines each of the 17 names with a non-blank value,
  \<open>validateEnv\<close> returns an object that binds each public name to the value of the source
  as it is; each secret name is bound to the value of the source as it is on the server, and
  is not bound at all in a browser.
\<close>

theorem validateEnv_values_exact:
  assumes "\<forall>n \<in> set requiredClientVars \<union> set requiredServerVars.
             \<exists>val. penv n = Str val \<and> trim val \<noteq> []"
  shows "\<exists>env. validateEnv window_defined penv = Inr env
           \<and> (\<forall>n \<in> set requiredClientVars. env n = Some (penv n))
           \<and> (\<forall>n \<in> set requiredServerVars.
                 env n = (if window_defined then None else Some (penv n)))"
proof -
  have ok: "\<not> missingIn penv n \<and> \<not> emptyIn penv n"
    if "n \<in> set requiredClientVars \<union> set requiredServerVars" for n
  proof -
    from assms that obtain val where "penv n = Str val" "trim val \<noteq> []"
      by blast
    then show ?thesis by (simp add: missingIn_def emptyIn_def)
  qed
  have "n \<notin> set requiredClientVars" if "n \<in> set requiredServerVars" for n
    using that required_disjoint by blast
  then show ?thesis
    using ok by (auto simp: validateEnv_eq)
qed

text \<open>
  On the server a secret with surrounding spaces and mixed case is stored as it is.
\<close>

theorem validateEnv_values_exact_witness:
  "projr (validateEnv False (fullEnv(ascii ''PAYSTACK_SECRET_KEY'' := Str (ascii '' sk_Live ''))))
     (ascii ''PAYSTACK_SECRET_KEY'') = Some (Str (ascii '' sk_Live ''))"
proof -
  let ?env = "fullEnv(ascii ''PAYSTACK_SECRET_KEY'' := Str (ascii '' sk_Live ''))"
  have t: "trim (ascii '' sk_Live '') \<noteq> []"
    by (simp add: trim_def ascii_def isWhiteSpace_def)
  have "\<exists>val. ?env n = Str val \<and> trim val \<noteq> []"
    if "n \<in> set requiredClientVars \<union> set requiredServerVars" for n
    using that t trim_x by (simp add: fullEnv_def)
  then have "\<forall>n \<in> set requiredClientVars \<union> set requiredServerVars.
               \<exists>val. ?env n = Str val \<and> trim val \<noteq> []"
    by blast
  from validateEnv_values_exact [OF this, of False]
  have "\<exists>env. validateEnv False ?env = Inr env
          \<and> (\<forall>n \<in> set requiredServerVars. env n = Some (?env n))"
    by (simp only: if_False) blast
  then obtain env where env: "validateEnv False ?env = Inr env"
    and sec: "\<forall>n \<in> set requiredServerVars. env n = Some (?env n)"
    by blast
  have "ascii ''PAYSTACK_SECRET_KEY'' \<in> set requiredServerVars"
    by (simp add: requiredServerVars_def)
  with sec have "env (ascii ''PAYSTACK_SECRET_KEY'') = Some (?env (ascii ''PAYSTACK_SECRET_KEY''))"
    by blast
  with env show ?thesis by simp
qed

text \<open>
  C5 as stated (every required name bound) fails in a browser: the source defines all 17
  names with the value \<^verbatim>\<open>"x"\<close>, validation succeeds, and the object has no property
  \<^verbatim>\<open>SUPABASE_SERVICE_ROLE_KEY\<close>.
\<close>

theorem validateEnv_values_exact_counterexample:
  "filter (missingIn fullEnv) (requiredClientVars @ requiredServerVars) = []
   \<and> filter (emptyIn fullEnv) (requiredClientVars @ requiredServerVars) = []
   \<and> \<not> isl (validateEnv True fullEnv)
   \<and> fullEnv (ascii ''SUPABASE_SERVICE_ROLE_KEY'') = Str (ascii ''x'')
   \<and> projr (validateEnv True fullEnv) (ascii ''SUPABASE_SERVICE_ROLE_KEY'') = None"
proof -
  have k: "ascii ''SUPABASE_SERVICE_ROLE_KEY'' \<in> set requiredServerVars"
    by (simp add: requiredServerVars_def)
  have k': "ascii ''SUPABASE_SERVICE_ROLE_KEY'' \<notin> set requiredClientVars"
    by (simp add: requiredClientVars_def ascii_eq_iff)
  have "validateEnv True fullEnv
      = Inr (\<lambda>key. if key \<in> set requiredClientVars then Some (fullEnv key) else None)"
    by (simp add: validateEnv_ok fullEnv_present)
  moreover have "\<forall>n \<in> set (requiredClientVars @ requiredServerVars).
                   \<not> missingIn fullEnv n \<and> \<not> emptyIn fullEnv n"
    using fullEnv_present by simp
  moreover have "fullEnv (ascii ''SUPABASE_SERVICE_ROLE_KEY'') = Str (ascii ''x'')"
    using k by (simp add: fullEnv_required)
  ultimately show ?thesis
    using k' by (simp add: filter_empty_conv)
qed

text \<open>
  C6. When the property \<^verbatim>\<open>NEXT_PUBLIC_APP_ENV\<close> of the validated object is one of the
  literals \<^verbatim>\<open>development\<close>, \<^verbatim>\<open>staging\<close>, \<^verbatim>\<open>production\<close>, exactly one of \<open>isDevelopment\<close>,
  \<open>isStaging\<close>, \<open>isProduction\<close> is true.
\<close>

theorem tier_predicates_exactly_one:
  assumes "get env (ascii ''NEXT_PUBLIC_APP_ENV'') = Str tier"
    and "tier \<in> {ascii ''development'', ascii ''staging'', ascii ''production''}"
  shows "(isDevelopment env \<and> \<not> isStaging env \<and> \<not> isProduction env)
         \<or> (\<not> isDevelopment env \<and> isStaging env \<and> \<not> isProduction env)
         \<or> (\<not> isDevelopment env \<and> \<not> isStaging env \<and> isProduction env)"
  using assms
  by (auto simp: isDevelopment_def isStaging_def isProduction_def ascii_eq_iff)

text \<open>
  The 12 public names defined, the tier \<^verbatim>\<open>production\<close>, in a browser: validation succeeds
  and \<open>isProduction\<close> alone is true.
\<close>

theorem tier_predicates_exactly_one_witness:
  "\<not> isl (validateEnv True (publicOnlyEnv(ascii ''NEXT_PUBLIC_APP_ENV'' := Str (ascii ''production''))))
   \<and> isProduction (projr (validateEnv True
         (publicOnlyEnv(ascii ''NEXT_PUBLIC_APP_ENV'' := Str (ascii ''production'')))))
   \<and> \<not> isDevelopment (projr (validateEnv True
         (publicOnlyEnv(ascii ''NEXT_PUBLIC_APP_ENV'' := Str (ascii ''production'')))))
   \<and> \<not> isStaging (projr (validateEnv True
         (publicOnlyEnv(ascii ''NEXT_PUBLIC_APP_ENV'' := Str (ascii ''production'')))))"
proof -
  let ?penv = "publicOnlyEnv(ascii ''NEXT_PUBLIC_APP_ENV'' := Str (ascii ''production''))"
  have t: "trim (ascii ''production'') \<noteq> []"
    by (simp add: trim_def ascii_def isWhiteSpace_def)
  have "\<forall>n \<in> set requiredClientVars \<union> (if True then {} else set requiredServerVars).
          \<not> missingIn ?penv n \<and> \<not> emptyIn ?penv n"
    using present_upd [OF publicOnlyEnv_present t] by simp
  then obtain env where env: "validateEnv True ?penv = Inr env"
    using validateEnv_ok by blast
  have tier: "get env (ascii ''NEXT_PUBLIC_APP_ENV'') = Str (ascii ''production'')"
    using validateEnv_tier [OF env] by simp
  have "ascii ''production''
          \<in> {ascii ''development'', ascii ''staging'', ascii ''production''}"
    by simp
  from tier_predicates_exactly_one [OF tier this] tier env show ?thesis
    by (simp add: isProduction_def)
qed

text \<open>
  C7. Every error raised by \<open>validateClientEnv\<close>, by \<open>validateServerEnv\<close> or by
  \<open>validateEnv\<close> has a message that contains \<^verbatim>\<open>Environment Variable Validation Failed\<close>,
  the test of the display components.
\<close>

theorem validation_errors_carry_marker:
  "(validateClientEnv penv = Inl err \<longrightarrow> isEnvError err)
   \<and> (validateServerEnv window_defined penv = Inl err \<longrightarrow> isEnvError err)
   \<and> (validateEnv window_defined penv = Inl err \<longrightarrow> isEnvError err)"
proof -
  have c: "isEnvError e" if "validateClientEnv penv = Inl e" for e
    using that client_message_marker
    by (auto simp: validateClientEnv_eq split: if_splits)
  have s: "isEnvError e" if "validateServerEnv window_defined penv = Inl e" for e
    using that server_message_marker
    by (auto simp: validateServerEnv_eq split: if_splits)
  have "isEnvError e" if "validateEnv window_defined penv = Inl e" for e
    using that c s by (auto simp: validateEnv_def split: sum.splits)
  with c s show ?thesis by blast
qed

text \<open>
  One error of each validator, with its message.
\<close>

theorem validation_errors_carry_marker_witness:
  "validateClientEnv (fullEnv(ascii ''NEXT_PUBLIC_APP_URL'' := Undefined))
     = Inl (Error (join (ascii [CHR 0x0A]) (clientErrorParts [ascii ''NEXT_PUBLIC_APP_URL''] [])))
   \<and> isEnvError
        (Error (join (ascii [CHR 0x0A]) (clientErrorParts [ascii ''NEXT_PUBLIC_APP_URL''] [])))
   \<and> validateServerEnv False (fullEnv(ascii ''OPAY_SECRET_KEY'' := Str []))
     = Inl (Error (join (ascii [CHR 0x0A]) (serverErrorParts [] [ascii ''OPAY_SECRET_KEY''])))
   \<and> isEnvError
        (Error (join (ascii [CHR 0x0A]) (serverErrorParts [] [ascii ''OPAY_SECRET_KEY''])))"
proof -
  let ?c = "fullEnv(ascii ''NEXT_PUBLIC_APP_URL'' := Undefined)"
  let ?s = "fullEnv(ascii ''OPAY_SECRET_KEY'' := Str [])"
  have c: "validateClientEnv ?c
     = Inl (Error (join (ascii [CHR 0x0A]) (clientErrorParts [ascii ''NEXT_PUBLIC_APP_URL''] [])))"
    by (simp add: validateClientEnv_def scanVars_filter requiredClientVars_def missingIn_def
          emptyIn_def fullEnv_def requiredServerVars_def ascii_eq_iff trim_x)
  have s: "validateServerEnv False ?s
     = Inl (Error (join (ascii [CHR 0x0A]) (serverErrorParts [] [ascii ''OPAY_SECRET_KEY''])))"
    by (simp add: validateServerEnv_def scanVars_filter requiredClientVars_def missingIn_def
          emptyIn_def fullEnv_def requiredServerVars_def ascii_eq_iff trim_x trim_Nil)
  from validation_errors_carry_marker [where penv = ?c and window_defined = False]
       validation_errors_carry_marker [where penv = ?s and window_defined = False] c s
  show ?thesis by simp
qed

text \<open>
  C8. On the server, when some required public name and some required secret name are
  missing or empty, \<open>validateEnv\<close> raises the error of \<open>validateClientEnv\<close>, which is not
  the error that \<open>validateServerEnv\<close> raises on the same source.
\<close>

theorem validateEnv_public_error_first:
  assumes "\<exists>n \<in> set requiredClientVars. missingIn penv n \<or> emptyIn penv n"
    and "\<exists>n \<in> set requiredServerVars. missingIn penv n \<or> emptyIn penv n"
  shows "\<exists>e e'. validateClientEnv penv = Inl e \<and> validateServerEnv False penv = Inl e'
           \<and> validateEnv False penv = Inl e \<and> e \<noteq> e'"
  using assms
  by (simp add: validateEnv_eq validateClientEnv_eq validateServerEnv_eq messages_differ)

text \<open>
  A public name missing and a secret name empty: the error names the public one.
\<close>

theorem validateEnv_public_error_first_witness:
  "validateEnv False (fullEnv(ascii ''NEXT_PUBLIC_APP_URL'' := Undefined,
                              ascii ''REMITA_API_KEY'' := Str []))
     = Inl (Error (join (ascii [CHR 0x0A]) (clientErrorParts [ascii ''NEXT_PUBLIC_APP_URL''] [])))
   \<and> validateServerEnv False (fullEnv(ascii ''NEXT_PUBLIC_APP_URL'' := Undefined,
                                       ascii ''REMITA_API_KEY'' := Str []))
     = Inl (Error (join (ascii [CHR 0x0A]) (serverErrorParts [] [ascii ''REMITA_API_KEY''])))"
proof -
  let ?penv = "fullEnv(ascii ''NEXT_PUBLIC_APP_URL'' := Undefined,
                       ascii ''REMITA_API_KEY'' := Str [])"
  have c: "validateClientEnv ?penv
     = Inl (Error (join (ascii [CHR 0x0A]) (clientErrorParts [ascii ''NEXT_PUBLIC_APP_URL''] [])))"
    by (simp add: validateClientEnv_def scanVars_filter requiredClientVars_def missingIn_def
          emptyIn_def fullEnv_def requiredServerVars_def ascii_eq_iff trim_x trim_Nil)
  have s: "validateServerEnv False ?penv
     = Inl (Error (join (ascii [CHR 0x0A]) (serverErrorParts [] [ascii ''REMITA_API_KEY''])))"
    by (simp add: validateServerEnv_def scanVars_filter requiredClientVars_def missingIn_def
          emptyIn_def fullEnv_def requiredServerVars_def ascii_eq_iff trim_x trim_Nil)
  have pub: "\<exists>n \<in> set requiredClientVars. missingIn ?penv n \<or> emptyIn ?penv n"
    using c by (simp add: validateClientEnv_eq split: if_splits)
  have sec: "\<exists>n \<in> set requiredServerVars. missingIn ?penv n \<or> emptyIn ?penv n"
    using s by (simp add: validateServerEnv_eq split: if_splits)
  from validateEnv_public_error_first [OF pub sec] c s show ?thesis
    by auto
qed

text \<open>
  C9. For every object, at most one of \<open>isDevelopment\<close>, \<open>isStaging\<close>, \<open>isProduction\<close>
  is true, and all three are false when \<^verbatim>\<open>NEXT_PUBLIC_APP_ENV\<close> is none of the three literals.
  Validation does not look at the tier beyond its being defined and non-blank: when every
  name required in the context is defined and non-blank, \<open>validateEnv\<close> returns an object
  whose tier is the one of the source.
\<close>

theorem tier_predicates_unknown_tier:
  "\<not> (isDevelopment obj \<and> isStaging obj) \<and> \<not> (isDevelopment obj \<and> isProduction obj)
   \<and> \<not> (isStaging obj \<and> isProduction obj)
   \<and> (get obj (ascii ''NEXT_PUBLIC_APP_ENV'')
         \<notin> {Str (ascii ''development''), Str (ascii ''staging''), Str (ascii ''production'')}
       \<longrightarrow> \<not> isDevelopment obj \<and> \<not> isStaging obj \<and> \<not> isProduction obj)
   \<and> ((\<forall>n \<in> set requiredClientVars
                 \<union> (if window_defined then {} else set requiredServerVars).
          \<not> missingIn penv n \<and> \<not> emptyIn penv n)
       \<longrightarrow> (\<exists>env. validateEnv window_defined penv = Inr env
              \<and> get env (ascii ''NEXT_PUBLIC_APP_ENV'') = penv (ascii ''NEXT_PUBLIC_APP_ENV'')))"
proof -
  have "\<exists>env. validateEnv window_defined penv = Inr env
              \<and> get env (ascii ''NEXT_PUBLIC_APP_ENV'') = penv (ascii ''NEXT_PUBLIC_APP_ENV'')"
    if "\<forall>n \<in> set requiredClientVars
                 \<union> (if window_defined then {} else set requiredServerVars).
          \<not> missingIn penv n \<and> \<not> emptyIn penv n"
  proof -
    have "\<exists>env. validateEnv window_defined penv = Inr env"
      using that by (auto simp: validateEnv_eq)
    then show ?thesis using validateEnv_tier by blast
  qed
  then show ?thesis
    by (auto simp: isDevelopment_def isStaging_def isProduction_def ascii_eq_iff)
qed

text \<open>
  The tier \<^verbatim>\<open>Production\<close> (capitalised) passes validation and leaves the three flags false.
\<close>

theorem tier_predicates_unknown_tier_witness:
  "\<not> isl (validateEnv False (fullEnv(ascii ''NEXT_PUBLIC_APP_ENV'' := Str (ascii ''Production''))))
   \<and> \<not> isDevelopment (projr (validateEnv False
         (fullEnv(ascii ''NEXT_PUBLIC_APP_ENV'' := Str (ascii ''Production'')))))
   \<and> \<not> isStaging (projr (validateEnv False
         (fullEnv(ascii ''NEXT_PUBLIC_APP_ENV'' := Str (ascii ''Production'')))))
   \<and> \<not> isProduction (projr (validateEnv False
         (fullEnv(ascii ''NEXT_PUBLIC_APP_ENV'' := Str (ascii ''Production'')))))"
proof -
  let ?penv = "fullEnv(ascii ''NEXT_PUBLIC_APP_ENV'' := Str (ascii ''Production''))"
  have t: "trim (ascii ''Production'') \<noteq> []"
    by (simp add: trim_def ascii_def isWhiteSpace_def)
  have ok: "\<forall>n \<in> set requiredClientVars \<union> (if False then {} else set requiredServerVars).
          \<not> missingIn ?penv n \<and> \<not> emptyIn ?penv n"
    using present_upd [OF fullEnv_present t] by simp
  from tier_predicates_unknown_tier [of "projr (validateEnv False ?penv)" False ?penv] ok
  have "\<exists>env. validateEnv False ?penv = Inr env
          \<and> get env (ascii ''NEXT_PUBLIC_APP_ENV'') = ?penv (ascii ''NEXT_PUBLIC_APP_ENV'')"
    by blast
  then obtain env where env: "validateEnv False ?penv = Inr env"
    and tier: "get env (ascii ''NEXT_PUBLIC_APP_ENV'') = Str (ascii ''Production'')"
    by auto
  have "get (projr (validateEnv False ?penv)) (ascii ''NEXT_PUBLIC_APP_ENV'')
          \<notin> {Str (ascii ''development''), Str (ascii ''staging''), Str (ascii ''production'')}"
    using env tier by (simp add: ascii_eq_iff)
  with tier_predicates_unknown_tier [of "projr (validateEnv False ?penv)" False ?penv] env
  show ?thesis by simp
qed

text \<open>
  C10. Two sources that agree on the 12 public names give the same result of
  \<open>validateClientEnv\<close> (the same object or the same error); two sources that agree on the 5
  secret names give the same result of \<open>validateServerEnv\<close>, on the server and in a browser.
\<close>

theorem validators_noninterference:
  "((\<forall>n \<in> set requiredClientVars. penv1 n = penv2 n)
      \<longrightarrow> validateClientEnv penv1 = validateClientEnv penv2)
   \<and> ((\<forall>n \<in> set requiredServerVars. penv1 n = penv2 n)
      \<longrightarrow> validateServerEnv window_defined penv1 = validateServerEnv window_defined penv2)"
proof -
  have scan: "scanVars penv1 names acc = scanVars penv2 names acc"
    if "\<forall>n \<in> set names. penv1 n = penv2 n" for names acc
    using that by (induction names arbitrary: acc) (auto split: jsvalue.splits)
  have red: "reduceVars penv1 names acc = reduceVars penv2 names acc"
    if "\<forall>n \<in> set names. penv1 n = penv2 n" for names acc
    using that by (induction names arbitrary: acc) auto
  have "validateClientEnv penv1 = validateClientEnv penv2"
    if "\<forall>n \<in> set requiredClientVars. penv1 n = penv2 n"
    by (simp only: validateClientEnv_def scan [OF that] red [OF that])
  moreover have "validateServerEnv window_defined penv1 = validateServerEnv window_defined penv2"
    if "\<forall>n \<in> set requiredServerVars. penv1 n = penv2 n"
    by (simp only: validateServerEnv_def scan [OF that] red [OF that])
  ultimately show ?thesis by blast
qed

text \<open>
  Two sources that differ on a secret name agree on \<open>validateClientEnv\<close>; two sources
  that differ on a public name agree on \<open>validateServerEnv\<close>.
\<close>

theorem validators_noninterference_witness:
  "fullEnv (ascii ''OPAY_SECRET_KEY'') \<noteq> publicOnlyEnv (ascii ''OPAY_SECRET_KEY'')
   \<and> validateClientEnv fullEnv = validateClientEnv publicOnlyEnv
   \<and> validateServerEnv False fullEnv
       = validateServerEnv False (fullEnv(ascii ''NEXT_PUBLIC_APP_URL'' := Undefined))"
proof -
  have a: "\<forall>n \<in> set requiredClientVars. fullEnv n = publicOnlyEnv n"
    by (simp add: fullEnv_def publicOnlyEnv_def)
  have b: "\<forall>n \<in> set requiredServerVars.
             fullEnv n = (fullEnv(ascii ''NEXT_PUBLIC_APP_URL'' := Undefined)) n"
    by (simp add: requiredServerVars_def ascii_eq_iff)
  have d: "fullEnv (ascii ''OPAY_SECRET_KEY'') \<noteq> publicOnlyEnv (ascii ''OPAY_SECRET_KEY'')"
    by (simp add: fullEnv_def publicOnlyEnv_def requiredClientVars_def requiredServerVars_def
          ascii_eq_iff)
  from validators_noninterference [of fullEnv publicOnlyEnv False]
       validators_noninterference
         [of fullEnv "fullEnv(ascii ''NEXT_PUBLIC_APP_URL'' := Undefined)" False]
       a b d
  show ?thesis by blast
qed

end
